theory Spec2Isabelle
  imports Complex_Main "HOL-Library.Char_ord" "HOL-Library.List_Lexorder"
begin

section \<open>Data model\<close>

text \<open>
  The passenger table of \<^verbatim>\<open>src/main.py\<close>: an ordered collection of rows, one per
  passenger, with the columns the statistics functions read. \<^verbatim>\<open>Survived\<close>,
  \<^verbatim>\<open>Pclass\<close> and \<^verbatim>\<open>SibSp\<close> are integer columns; a cell of \<^verbatim>\<open>Sex\<close>,
  \<^verbatim>\<open>Fare\<close>, \<^verbatim>\<open>Embarked\<close>, \<^verbatim>\<open>Age\<close> or \<^verbatim>\<open>Ticket\<close> may be missing
  (pandas' NaN), which is \<open>None\<close> here.
\<close>

record passenger =
  Survived :: int
  Pclass :: int
  Sex :: "string option"
  SibSp :: int
  Fare :: "rat option"
  Embarked :: "string option"
  Age :: "rat option"
  Ticket :: "string option"

text \<open>
  A column keeps its dtype when the frame has no rows. Of the dtypes only that of
  \<^verbatim>\<open>Survived\<close> is read by the statistics functions: \<^verbatim>\<open>object\<close>, which is what
  \<^verbatim>\<open>read_csv\<close> gives every column of a file without data rows, or a numeric dtype
  (\<^verbatim>\<open>int64\<close>, \<^verbatim>\<open>float64\<close>, \<^verbatim>\<open>bool\<close>), which is what it gives a column of
  numbers and what a frame keeps when rows are filtered out of it.
\<close>

datatype dtype = Object_dtype | Numeric_dtype

record dataframe =
  rows :: "passenger list"
  survived_dtype :: dtype

text \<open>
  A floating-point result: a number, or one of the special values. Numbers are exact
  rationals: rounding is not part of the model, nor is the wrap-around of 64-bit integers.
\<close>

datatype float_value = Num rat | NaN | PosInf | NegInf

text \<open>
  What \<^verbatim>\<open>Series.sum()\<close> returns: a Python integer for a column of dtype
  \<^verbatim>\<open>object\<close>, a numpy scalar for a numeric column.
\<close>

datatype number = PyInt int | NpScalar int

text \<open>
  A pandas Series indexed by category: the entries in index order. The keys of a
  Series built by \<^verbatim>\<open>groupby\<close> or \<^verbatim>\<open>value_counts\<close> are pairwise distinct.
\<close>

type_synonym ('k, 'v) series = "('k \<times> 'v) list"

datatype label = StrLabel string | IntLabel int

datatype py_error = ZeroDivisionError | KeyError label | ValueError

section \<open>Library operations used by the statistics functions\<close>

definition series_sum :: "dtype \<Rightarrow> int list \<Rightarrow> number" where
  "series_sum dt col =
     (case dt of Object_dtype \<Rightarrow> PyInt (sum_list col) | Numeric_dtype \<Rightarrow> NpScalar (sum_list col))"

text \<open>
  \<^verbatim>\<open>a / b\<close> with \<open>b\<close> a Python integer, as \<^verbatim>\<open>len(df)\<close> is. When \<open>a\<close> is a
  Python integer the division is Python's and raises on a zero divisor. When \<open>a\<close> is a
  numpy scalar the division is numpy's: on a zero divisor it returns nan for 0 / 0 and an
  infinity otherwise, and raises nothing (its RuntimeWarning goes to standard error and is
  not part of the model).
\<close>

definition truediv :: "number \<Rightarrow> nat \<Rightarrow> py_error + float_value" where
  "truediv a b =
     (case a of
        PyInt x \<Rightarrow> (if b = 0 then Inl ZeroDivisionError else Inr (Num (of_int x / of_nat b)))
      | NpScalar x \<Rightarrow>
          Inr (if b \<noteq> 0 then Num (of_int x / of_nat b)
               else if x = 0 then NaN else if 0 < x then PosInf else NegInf))"

text \<open>A floating-point value times a number, as in \<^verbatim>\<open>x * 100\<close>.\<close>

definition float_times :: "float_value \<Rightarrow> rat \<Rightarrow> float_value" where
  "float_times v c =
     (case v of
        Num q \<Rightarrow> Num (q * c)
      | NaN \<Rightarrow> NaN
      | PosInf \<Rightarrow> (if 0 < c then PosInf else if c < 0 then NegInf else NaN)
      | NegInf \<Rightarrow> (if 0 < c then NegInf else if c < 0 then PosInf else NaN))"

text \<open>\<^verbatim>\<open>Series.dropna()\<close>: the present values of a column, in row order.\<close>

definition dropna :: "'a option list \<Rightarrow> 'a list" where
  "dropna col = List.map_filter id col"

text \<open>The distinct values of a list in order of first appearance.\<close>

definition unique :: "'a list \<Rightarrow> 'a list" where
  "unique xs = rev (remdups (rev xs))"

text \<open>
  \<^verbatim>\<open>Series.value_counts()\<close>: for each distinct present value the number of its
  occurrences, most frequent first (equal counts in order of first appearance).
\<close>

definition value_counts :: "'a option list \<Rightarrow> ('a, nat) series" where
  "value_counts col =
     (let vals = dropna col
      in sort_key (\<lambda>(k, c). - int c) (map (\<lambda>k. (k, count_list vals k)) (unique vals)))"

text \<open>
  \<^verbatim>\<open>Series.value_counts(normalize=True)\<close>: each count divided by the number of
  present values. On a column without present values the Series is empty and nothing
  is divided.
\<close>

definition value_counts_normalize :: "'a option list \<Rightarrow> ('a, rat) series" where
  "value_counts_normalize col =
     map (\<lambda>(k, c). (k, of_nat c / of_nat (length (dropna col)))) (value_counts col)"

text \<open>
  \<^verbatim>\<open>df.groupby(key)\<close>: the group keys are the distinct present key values in
  ascending order; a group holds the rows with that key, in row order.
\<close>

definition group_keys :: "('r \<Rightarrow> 'k::linorder option) \<Rightarrow> 'r list \<Rightarrow> 'k list" where
  "group_keys key df = sort (remdups (dropna (map key df)))"

definition group_rows :: "('r \<Rightarrow> 'k option) \<Rightarrow> 'r list \<Rightarrow> 'k \<Rightarrow> 'r list" where
  "group_rows key df k = filter (\<lambda>r. key r = Some k) df"

text \<open>
  \<^verbatim>\<open>mean()\<close> of an integer column of a group. Every group has at least one row
  (lemma \<open>group_rows_nonempty\<close>), so the divisor is positive.
\<close>

definition mean_int :: "int list \<Rightarrow> rat" where
  "mean_int xs = of_int (sum_list xs) / of_nat (length xs)"

text \<open>
  \<^verbatim>\<open>mean()\<close> of a column with missing cells: the missing cells are skipped; without
  a present cell the mean is nan.
\<close>

definition mean_skipna :: "rat option list \<Rightarrow> float_value" where
  "mean_skipna col =
     (let vals = dropna col
      in if vals = [] then NaN else Num (sum_list vals / of_nat (length vals)))"

text \<open>\<^verbatim>\<open>series[key]\<close>: the value at a label, KeyError when the label is absent.\<close>

definition series_getitem :: "('k \<Rightarrow> label) \<Rightarrow> ('k, 'v) series \<Rightarrow> 'k \<Rightarrow> py_error + 'v" where
  "series_getitem lab s k =
     (case map_of s k of None \<Rightarrow> Inl (KeyError (lab k)) | Some v \<Rightarrow> Inr v)"

text \<open>
  \<^verbatim>\<open>Series.idxmax()\<close>: a left-to-right scan keeping the first position of the largest
  value; ValueError on an empty Series.
\<close>

fun argmax_scan :: "'k \<times> rat \<Rightarrow> ('k, rat) series \<Rightarrow> 'k \<times> rat" where
  "argmax_scan best [] = best"
| "argmax_scan best (kv # s) = argmax_scan (if snd best < snd kv then kv else best) s"

definition idxmax :: "('k, rat) series \<Rightarrow> py_error + 'k" where
  "idxmax s = (case s of [] \<Rightarrow> Inl ValueError | kv # rest \<Rightarrow> Inr (fst (argmax_scan kv rest)))"

section \<open>The statistics functions\<close>

definition calculate_survival_rate :: "dataframe \<Rightarrow> py_error + float_value" where
  "calculate_survival_rate titanic_df =
     (let total_passengers = length (rows titanic_df);
          survived_passengers =
            series_sum (survived_dtype titanic_df) (map Survived (rows titanic_df))
      in case truediv survived_passengers total_passengers of
           Inl e \<Rightarrow> Inl e
         | Inr q \<Rightarrow> Inr (float_times q 100))"

definition calculate_gender_proportion :: "dataframe \<Rightarrow> (string, rat) series" where
  "calculate_gender_proportion titanic_df =
     map (\<lambda>(k, p). (k, p * 100)) (value_counts_normalize (map Sex (rows titanic_df)))"

definition calculate_class_survival_rate :: "dataframe \<Rightarrow> (int, rat) series" where
  "calculate_class_survival_rate titanic_df =
     map (\<lambda>k. (k, mean_int (map Survived
                      (group_rows (\<lambda>r. Some (Pclass r)) (rows titanic_df) k)) * 100))
       (group_keys (\<lambda>r. Some (Pclass r)) (rows titanic_df))"

definition count_siblings_spouses_aboard :: "dataframe \<Rightarrow> nat" where
  "count_siblings_spouses_aboard titanic_df =
     length (filter (\<lambda>r. SibSp r > 0) (rows titanic_df))"

definition calculate_average_fare_by_class :: "dataframe \<Rightarrow> (int, float_value) series" where
  "calculate_average_fare_by_class titanic_df =
     map (\<lambda>k. (k, mean_skipna (map Fare (group_rows (\<lambda>r. Some (Pclass r)) (rows titanic_df) k))))
       (group_keys (\<lambda>r. Some (Pclass r)) (rows titanic_df))"

definition count_passengers_by_port :: "dataframe \<Rightarrow> (string, nat) series" where
  "count_passengers_by_port titanic_df = value_counts (map Embarked (rows titanic_df))"

definition calculate_gender_survival_rate :: "dataframe \<Rightarrow> (string, rat) series" where
  "calculate_gender_survival_rate titanic_df =
     map (\<lambda>k. (k, mean_int (map Survived (group_rows Sex (rows titanic_df) k)) * 100))
       (group_keys Sex (rows titanic_df))"

definition count_unique_tickets :: "dataframe \<Rightarrow> nat" where
  "count_unique_tickets titanic_df = length (remdups (dropna (map Ticket (rows titanic_df))))"

section \<open>The loader\<close>

text \<open>
  What \<^verbatim>\<open>pd.read_csv\<close> returns: the columns in file order, each a label with its
  cells in row order. The loader never looks into a cell, so the cell type is left open.
\<close>

type_synonym 'c frame = "(string \<times> 'c list) list"

datatype load_exc = FileNotFoundError | EmptyDataError | ParserError | OtherException string

datatype event = Print string | Report string "float_value list" | Plot

text \<open>
  \<^verbatim>\<open>pd.read_csv(file_path)\<close>: the file system maps a path to the content of the file
  there; FileNotFoundError when there is none. The CSV parser is pandas' own and is a
  parameter: it yields the frame or the exception it raises.
\<close>

definition read_csv ::
  "(string \<Rightarrow> load_exc + 'c frame) \<Rightarrow> (string \<rightharpoonup> string) \<Rightarrow> string \<Rightarrow> load_exc + 'c frame" where
  "read_csv parse fs file_path =
     (case fs file_path of None \<Rightarrow> Inl FileNotFoundError | Some content \<Rightarrow> parse content)"

text \<open>Python's \<^verbatim>\<open>needle in hay\<close> on strings: \<open>needle\<close> occurs as a contiguous part.\<close>

fun str_in :: "string \<Rightarrow> string \<Rightarrow> bool" where
  "str_in needle [] = (needle = [])"
| "str_in needle (c # cs) = (take (length needle) (c # cs) = needle \<or> str_in needle cs)"

text \<open>\<^verbatim>\<open>df.drop(columns=labels)\<close>: a new frame without the columns so labelled.\<close>

definition df_drop :: "string list \<Rightarrow> 'c frame \<Rightarrow> 'c frame" where
  "df_drop labels df = filter (\<lambda>(name, cells). name \<notin> set labels) df"

definition load_dataset ::
  "(string \<Rightarrow> load_exc + 'c frame) \<Rightarrow> (string \<rightharpoonup> string) \<Rightarrow> string
     \<Rightarrow> event list \<times> 'c frame option" where
  "load_dataset parse fs file_path =
     (case read_csv parse fs file_path of
        Inr titanic_df \<Rightarrow>
          ([], Some (df_drop (filter (\<lambda>col. str_in ''Unnamed'' col) (map fst titanic_df))
                      titanic_df))
      | Inl FileNotFoundError \<Rightarrow>
          ([Print (''Error: The file at '' @ file_path @ '' was not found.'')], None)
      | Inl EmptyDataError \<Rightarrow> ([Print ''Error: The file is empty.''], None)
      | Inl ParserError \<Rightarrow> ([Print ''Error: There was a problem parsing the file.''], None)
      | Inl (OtherException e) \<Rightarrow> ([Print (''An error occurred: '' @ e)], None))"

section \<open>The top-level sequence\<close>

text \<open>
  A run prints as it goes and stops at the first exception: nothing in the sequence
  catches one. The value of a run is what was printed, with the exception that ended it
  or the value computed.
\<close>

type_synonym 'a run = "event list \<times> (py_error + 'a)"

definition and_then :: "'a run \<Rightarrow> ('a \<Rightarrow> 'b run) \<Rightarrow> 'b run" where
  "and_then m f =
     (case m of
        (out, Inl e) \<Rightarrow> (out, Inl e)
      | (out, Inr x) \<Rightarrow> (case f x of (out', r) \<Rightarrow> (out @ out', r)))"

definition step :: "py_error + 'a \<Rightarrow> 'a run" where
  "step r = ([], r)"

definition emit :: "event \<Rightarrow> unit run" where
  "emit e = ([e], Inr ())"

text \<open>
  \<^verbatim>\<open>visualize_distributions\<close>: the rendering is matplotlib's and seaborn's; the model
  records that the figure was requested.
\<close>

definition visualize_distributions :: "dataframe \<Rightarrow> unit run" where
  "visualize_distributions titanic_df = emit Plot"

text \<open>
  The body of \<^verbatim>\<open>if titanic_df_clean is not None\<close>. A \<open>Report\<close> holds the heading of
  a printed block and the numbers its template shows, before they are formatted. The
  lookups of one f-string are evaluated left to right before anything of it is printed.
\<close>

definition statistics_sequence :: "dataframe \<Rightarrow> unit run" where
  "statistics_sequence df =
     and_then (step (calculate_survival_rate df)) (\<lambda>survival_rate.
     and_then (emit (Report ''Survival Rate'' [survival_rate])) (\<lambda>_.
     and_then (step (Inr (calculate_gender_proportion df))) (\<lambda>gender_distribution.
     and_then (step (series_getitem StrLabel gender_distribution ''male'')) (\<lambda>gd_male.
     and_then (step (series_getitem StrLabel gender_distribution ''female'')) (\<lambda>gd_female.
     and_then (emit (Report ''Gender Proportion'' [Num gd_male, Num gd_female])) (\<lambda>_.
     and_then (step (Inr (calculate_class_survival_rate df))) (\<lambda>class_survival_rate.
     and_then (step (idxmax class_survival_rate)) (\<lambda>highest_survival_class.
     and_then (step (series_getitem IntLabel class_survival_rate 1)) (\<lambda>csr1.
     and_then (step (series_getitem IntLabel class_survival_rate 2)) (\<lambda>csr2.
     and_then (step (series_getitem IntLabel class_survival_rate 3)) (\<lambda>csr3.
     and_then (emit (Report ''Survival Rate by Class'' [Num csr1, Num csr2, Num csr3])) (\<lambda>_.
     and_then (emit (Report ''Class with Highest Survival Rate''
                       [Num (of_int highest_survival_class)])) (\<lambda>_.
     and_then (step (Inr (count_siblings_spouses_aboard df))) (\<lambda>sibsp_count.
     and_then (emit (Report ''Passengers with Siblings or Spouses Aboard''
                       [Num (of_nat sibsp_count)])) (\<lambda>_.
     and_then (step (Inr (calculate_average_fare_by_class df))) (\<lambda>average_fare_by_class.
     and_then (step (series_getitem IntLabel average_fare_by_class 1)) (\<lambda>fare1.
     and_then (step (series_getitem IntLabel average_fare_by_class 2)) (\<lambda>fare2.
     and_then (step (series_getitem IntLabel average_fare_by_class 3)) (\<lambda>fare3.
     and_then (emit (Report ''Average Fare by Class'' [fare1, fare2, fare3])) (\<lambda>_.
     and_then (step (Inr (count_passengers_by_port df))) (\<lambda>embarked_count.
     and_then (step (series_getitem StrLabel embarked_count ''C'')) (\<lambda>port_c.
     and_then (step (series_getitem StrLabel embarked_count ''Q'')) (\<lambda>port_q.
     and_then (step (series_getitem StrLabel embarked_count ''S'')) (\<lambda>port_s.
     and_then (emit (Report ''Passengers by Port of Embarkation''
                       [Num (of_nat port_c), Num (of_nat port_q), Num (of_nat port_s)])) (\<lambda>_.
     and_then (step (Inr (calculate_gender_survival_rate df))) (\<lambda>gender_survival_rate.
     and_then (step (series_getitem StrLabel gender_survival_rate ''male'')) (\<lambda>gs_male.
     and_then (step (series_getitem StrLabel gender_survival_rate ''female'')) (\<lambda>gs_female.
     and_then (emit (Report ''Survival Rate by Gender'' [Num gs_male, Num gs_female])) (\<lambda>_.
     and_then (step (Inr (count_unique_tickets df))) (\<lambda>unique_ticket_count.
     and_then (emit (Report ''Unique Ticket Numbers'' [Num (of_nat unique_ticket_count)])) (\<lambda>_.
     visualize_distributions df)))))))))))))))))))))))))))))))"

text \<open>
  The dtype \<^verbatim>\<open>read_csv\<close> infers for the \<^verbatim>\<open>Survived\<close> column: \<^verbatim>\<open>object\<close> when the
  file has no data row, a numeric dtype for a column of integers.
\<close>

definition inferred_dtype :: "passenger list \<Rightarrow> dtype" where
  "inferred_dtype rs = (if rs = [] then Object_dtype else Numeric_dtype)"

text \<open>
  The entry point. The statistics functions read the loaded frame through its typed
  columns; \<open>typed\<close> is that reading of a frame as passenger rows, a parameter as the
  frame's cells are.
\<close>

definition main ::
  "(string \<Rightarrow> load_exc + 'c frame) \<Rightarrow> ('c frame \<Rightarrow> passenger list) \<Rightarrow> (string \<rightharpoonup> string)
     \<Rightarrow> unit run" where
  "main parse typed fs =
     (let file_path = ''./data/Titanic.csv'';
          (out, titanic_df_clean) = load_dataset parse fs file_path
      in case titanic_df_clean of
           None \<Rightarrow> (out, Inr ())
         | Some df \<Rightarrow>
             and_then (out, Inr ())
               (\<lambda>_. statistics_sequence
                      \<lparr>rows = typed df, survived_dtype = inferred_dtype (typed df)\<rparr>))"

text \<open>
  The category labels the sequence looks up, in the order of the lookups, each with
  whether some row of the table has it. The lookups in the fare and the
  survival-by-gender Series repeat labels looked up before in a Series with the same keys.
\<close>

definition referenced_categories :: "dataframe \<Rightarrow> (label \<times> bool) list" where
  "referenced_categories df =
     [(StrLabel ''male'', Some ''male'' \<in> Sex ` set (rows df)),
      (StrLabel ''female'', Some ''female'' \<in> Sex ` set (rows df)),
      (IntLabel 1, 1 \<in> Pclass ` set (rows df)),
      (IntLabel 2, 2 \<in> Pclass ` set (rows df)),
      (IntLabel 3, 3 \<in> Pclass ` set (rows df)),
      (StrLabel ''C'', Some ''C'' \<in> Embarked ` set (rows df)),
      (StrLabel ''Q'', Some ''Q'' \<in> Embarked ` set (rows df)),
      (StrLabel ''S'', Some ''S'' \<in> Embarked ` set (rows df))]"

section \<open>Example tables\<close>

text \<open>The two rows of the end-to-end example, and a third passenger without a ticket.\<close>

definition row_a :: passenger where
  "row_a = \<lparr>Survived = 1, Pclass = 1, Sex = Some ''female'', SibSp = 0, Fare = Some 100,
            Embarked = Some ''C'', Age = None, Ticket = Some ''A''\<rparr>"

definition row_b :: passenger where
  "row_b = \<lparr>Survived = 0, Pclass = 3, Sex = Some ''male'', SibSp = 1, Fare = Some 10,
            Embarked = Some ''S'', Age = None, Ticket = Some ''B''\<rparr>"

definition row_c :: passenger where
  "row_c = \<lparr>Survived = 1, Pclass = 3, Sex = Some ''male'', SibSp = 0, Fare = None,
            Embarked = None, Age = Some 30, Ticket = None\<rparr>"

text \<open>
  Frames: rows under a numeric \<^verbatim>\<open>Survived\<close> column, and the two frames without rows,
  the one as loaded from a file with a header only, the other as left by a filter that
  no row passes.
\<close>

definition numeric_frame :: "passenger list \<Rightarrow> dataframe" where
  "numeric_frame rs = \<lparr>rows = rs, survived_dtype = Numeric_dtype\<rparr>"

definition header_only_frame :: dataframe where
  "header_only_frame = \<lparr>rows = [], survived_dtype = Object_dtype\<rparr>"

definition filtered_out_frame :: dataframe where
  "filtered_out_frame = \<lparr>rows = [], survived_dtype = Numeric_dtype\<rparr>"

text \<open>
  A frame as read from a file written with its index: the first column is the artifact.
  And a frame as read from a file with a header only.
\<close>

definition raw_frame :: "string frame" where
  "raw_frame =
     [(''Unnamed: 0'', [''0'', ''1'']),
      (''Survived'', [''1'', ''0'']),
      (''Name'', [''Ann'', ''Bob''])]"

definition header_only_raw_frame :: "string frame" where
  "header_only_raw_frame = [(''Survived'', []), (''Pclass'', []), (''Sex'', [])]"

section \<open>Facts about the library operations\<close>

lemma set_dropna: "set (dropna col) = {x. Some x \<in> set col}"
  by (induction col) (auto simp: dropna_def split: option.splits)

lemma dropna_map_Some: "dropna (map (\<lambda>r. Some (f r)) df) = map f df"
  by (induction df) (simp_all add: dropna_def)

lemma set_group_keys: "set (group_keys key df) = {k. \<exists>r \<in> set df. key r = Some k}"
  by (auto simp: group_keys_def set_dropna image_iff) metis

lemma distinct_group_keys: "distinct (group_keys key df)"
  by (simp add: group_keys_def)

lemma sorted_group_keys: "sorted (group_keys key df)"
  by (simp add: group_keys_def)

lemma group_rows_nonempty: "k \<in> set (group_keys key df) \<Longrightarrow> group_rows key df k \<noteq> []"
  by (auto simp: set_group_keys group_rows_def filter_empty_conv)

lemma series_getitem_absent:
  "k \<notin> set (map fst s) \<Longrightarrow> series_getitem lab s k = Inl (KeyError (lab k))"
proof -
  assume "k \<notin> set (map fst s)"
  then have "map_of s k = None" by (simp add: map_of_eq_None_iff)
  then show ?thesis by (simp add: series_getitem_def)
qed

lemma keys_class_survival_rate:
  "map fst (calculate_class_survival_rate df) = sort (remdups (map Pclass (rows df)))"
  by (simp add: calculate_class_survival_rate_def group_keys_def dropna_map_Some comp_def)

section \<open>Survival rate\<close>

lemma sum_survived_01:
  "\<forall>r \<in> set df. Survived r = 0 \<or> Survived r = 1 \<Longrightarrow>
     sum_list (map Survived df) = int (length (filter (\<lambda>r. Survived r = 1) df))"
  by (induction df) auto

text \<open>With rows, the rate is the sum over the number of rows, times 100, for either dtype.\<close>

lemma calculate_survival_rate_rows:
  assumes "rows df \<noteq> []"
  shows "calculate_survival_rate df
           = Inr (Num (of_int (sum_list (map Survived (rows df))) / of_nat (length (rows df)) * 100))"
  using assms
  by (cases "survived_dtype df")
    (simp_all add: calculate_survival_rate_def series_sum_def truediv_def float_times_def)

text \<open>
  C1. On a non-empty table whose \<^verbatim>\<open>Survived\<close> cells are 0 or 1,
  \<open>calculate_survival_rate\<close> returns the number of rows with \<^verbatim>\<open>Survived\<close> = 1
  divided by the number of all rows, times 100. On a non-empty table where every
  \<^verbatim>\<open>Survived\<close> is 0 it returns 0, and where every \<^verbatim>\<open>Survived\<close> is 1 it returns 100.
\<close>

theorem calculate_survival_rate_percentage:
  assumes "rows titanic_df \<noteq> []"
  shows "((\<forall>r \<in> set (rows titanic_df). Survived r = 0 \<or> Survived r = 1) \<longrightarrow>
            calculate_survival_rate titanic_df =
              Inr (Num (of_nat (length (filter (\<lambda>r. Survived r = 1) (rows titanic_df)))
                     / of_nat (length (rows titanic_df)) * 100)))
       \<and> ((\<forall>r \<in> set (rows titanic_df). Survived r = 0) \<longrightarrow>
            calculate_survival_rate titanic_df = Inr (Num 0))
       \<and> ((\<forall>r \<in> set (rows titanic_df). Survived r = 1) \<longrightarrow>
            calculate_survival_rate titanic_df = Inr (Num 100))"
proof (intro impI conjI)
  assume "\<forall>r \<in> set (rows titanic_df). Survived r = 0 \<or> Survived r = 1"
  then show "calculate_survival_rate titanic_df =
      Inr (Num (of_nat (length (filter (\<lambda>r. Survived r = 1) (rows titanic_df)))
             / of_nat (length (rows titanic_df)) * 100))"
    by (simp add: calculate_survival_rate_rows[OF assms] sum_survived_01)
next
  assume a: "\<forall>r \<in> set (rows titanic_df). Survived r = 0"
  have "\<forall>r \<in> set xs. Survived r = 0 \<Longrightarrow> sum_list (map Survived xs) = 0" for xs
    by (induction xs) auto
  then have "sum_list (map Survived (rows titanic_df)) = 0"
    using a by blast
  then show "calculate_survival_rate titanic_df = Inr (Num 0)"
    by (simp add: calculate_survival_rate_rows[OF assms])
next
  assume a: "\<forall>r \<in> set (rows titanic_df). Survived r = 1"
  have "\<forall>r \<in> set xs. Survived r = 1 \<Longrightarrow> sum_list (map Survived xs) = int (length xs)" for xs
    by (induction xs) auto
  then have "sum_list (map Survived (rows titanic_df)) = int (length (rows titanic_df))"
    using a by blast
  then show "calculate_survival_rate titanic_df = Inr (Num 100)"
    using assms by (simp add: calculate_survival_rate_rows[OF assms])
qed

theorem calculate_survival_rate_percentage_witness:
  "rows (numeric_frame [row_a, row_b, row_c]) \<noteq> []
   \<and> list_all (\<lambda>r. Survived r = 0 \<or> Survived r = 1) (rows (numeric_frame [row_a, row_b, row_c]))
   \<and> calculate_survival_rate (numeric_frame [row_a, row_b, row_c]) = Inr (Num (200 / 3))
   \<and> list_all (\<lambda>r. Survived r = 0) (rows (numeric_frame [row_b]))
   \<and> calculate_survival_rate (numeric_frame [row_b]) = Inr (Num 0)
   \<and> list_all (\<lambda>r. Survived r = 1) (rows (numeric_frame [row_a, row_c]))
   \<and> calculate_survival_rate (numeric_frame [row_a, row_c]) = Inr (Num 100)"
  using calculate_survival_rate_percentage [of "numeric_frame [row_a, row_b, row_c]"]
    calculate_survival_rate_percentage [of "numeric_frame [row_b]"]
    calculate_survival_rate_percentage [of "numeric_frame [row_a, row_c]"]
  by (simp add: numeric_frame_def row_a_def row_b_def row_c_def)

text \<open>
  C3, as the code has it. On a table with zero rows \<open>calculate_survival_rate\<close> raises
  ZeroDivisionError when the \<^verbatim>\<open>Survived\<close> column has dtype \<^verbatim>\<open>object\<close>, and the
  top-level sequence then ends with that exception before anything is printed; when the
  column is numeric it raises nothing and returns nan. A frame loaded from a file has
  zero rows only with dtype \<^verbatim>\<open>object\<close>: when the file at the path of the entry point
  loads to a frame without rows, the run ends with ZeroDivisionError and prints nothing.
\<close>

theorem calculate_survival_rate_zero_rows:
  "(length (rows titanic_df) = 0 \<longrightarrow> survived_dtype titanic_df = Object_dtype \<longrightarrow>
      calculate_survival_rate titanic_df = Inl ZeroDivisionError
      \<and> statistics_sequence titanic_df = ([], Inl ZeroDivisionError))
   \<and> (length (rows titanic_df) = 0 \<longrightarrow> survived_dtype titanic_df = Numeric_dtype \<longrightarrow>
      calculate_survival_rate titanic_df = Inr NaN)
   \<and> (load_dataset parse fs ''./data/Titanic.csv'' = ([], Some clean) \<longrightarrow>
      length (typed clean) = 0 \<longrightarrow>
      main parse typed fs = ([], Inl ZeroDivisionError))"
proof (intro conjI impI)
  assume "length (rows titanic_df) = 0" and "survived_dtype titanic_df = Object_dtype"
  then show "calculate_survival_rate titanic_df = Inl ZeroDivisionError"
    and "statistics_sequence titanic_df = ([], Inl ZeroDivisionError)"
    by (simp_all add: statistics_sequence_def calculate_survival_rate_def series_sum_def
        truediv_def and_then_def step_def)
next
  assume "length (rows titanic_df) = 0" and "survived_dtype titanic_df = Numeric_dtype"
  then show "calculate_survival_rate titanic_df = Inr NaN"
    by (simp add: calculate_survival_rate_def series_sum_def truediv_def float_times_def)
next
  assume l: "load_dataset parse fs ''./data/Titanic.csv'' = ([], Some clean)"
    and z: "length (typed clean) = 0"
  let ?df = "\<lparr>rows = typed clean, survived_dtype = inferred_dtype (typed clean)\<rparr>"
  have "statistics_sequence ?df = ([], Inl ZeroDivisionError)"
    using z
    by (simp add: statistics_sequence_def calculate_survival_rate_def series_sum_def
        truediv_def and_then_def step_def inferred_dtype_def)
  then show "main parse typed fs = ([], Inl ZeroDivisionError)"
    using l by (simp add: main_def and_then_def)
qed

theorem calculate_survival_rate_zero_rows_witness:
  "length (rows header_only_frame) = 0
   \<and> survived_dtype header_only_frame = Object_dtype
   \<and> calculate_survival_rate header_only_frame = Inl ZeroDivisionError
   \<and> statistics_sequence header_only_frame = ([], Inl ZeroDivisionError)
   \<and> length (rows filtered_out_frame) = 0
   \<and> survived_dtype filtered_out_frame = Numeric_dtype
   \<and> calculate_survival_rate filtered_out_frame = Inr NaN
   \<and> load_dataset (\<lambda>content. Inr header_only_raw_frame)
        [''./data/Titanic.csv'' \<mapsto> ''Survived,Pclass,Sex''] ''./data/Titanic.csv''
       = ([], Some header_only_raw_frame)
   \<and> main (\<lambda>content. Inr header_only_raw_frame) (\<lambda>df. [])
        [''./data/Titanic.csv'' \<mapsto> ''Survived,Pclass,Sex'']
       = ([], Inl ZeroDivisionError)"
proof -
  have l: "load_dataset (\<lambda>content. Inr header_only_raw_frame)
        [''./data/Titanic.csv'' \<mapsto> ''Survived,Pclass,Sex''] ''./data/Titanic.csv''
       = ([], Some header_only_raw_frame)"
    by (simp add: load_dataset_def read_csv_def df_drop_def header_only_raw_frame_def)
  show ?thesis
    using l
      calculate_survival_rate_zero_rows
        [where titanic_df = header_only_frame
           and parse = "\<lambda>content. Inr header_only_raw_frame"
           and fs = "[''./data/Titanic.csv'' \<mapsto> ''Survived,Pclass,Sex'']"
           and clean = header_only_raw_frame and typed = "\<lambda>df. []"]
      calculate_survival_rate_zero_rows
        [where titanic_df = filtered_out_frame
           and parse = "\<lambda>content. Inr header_only_raw_frame"
           and fs = "[''./data/Titanic.csv'' \<mapsto> ''Survived,Pclass,Sex'']"
           and clean = header_only_raw_frame and typed = "\<lambda>df. []"]
    by (simp add: header_only_frame_def filtered_out_frame_def)
qed

text \<open>
  Stated for every table with zero rows, C3 fails: on the frame that a filter leaves when
  no row passes it the result is a value, nan, and no exception.
\<close>

theorem calculate_survival_rate_zero_rows_counterexample:
  "length (rows filtered_out_frame) = 0
   \<and> calculate_survival_rate filtered_out_frame = Inr NaN
   \<and> calculate_survival_rate filtered_out_frame \<noteq> Inl ZeroDivisionError"
  by (simp add: filtered_out_frame_def calculate_survival_rate_def series_sum_def truediv_def
      float_times_def)

section \<open>Survival rate per class\<close>

text \<open>
  C4. The keys of the Series returned by \<open>calculate_class_survival_rate\<close> are exactly
  the \<^verbatim>\<open>Pclass\<close> values of the rows, each once; a class of no row has no entry, and
  looking it up raises KeyError.
\<close>

theorem calculate_class_survival_rate_keys:
  "set (map fst (calculate_class_survival_rate titanic_df)) = Pclass ` set (rows titanic_df)
   \<and> distinct (map fst (calculate_class_survival_rate titanic_df))
   \<and> (c \<notin> Pclass ` set (rows titanic_df) \<longrightarrow>
        map_of (calculate_class_survival_rate titanic_df) c = None
        \<and> series_getitem IntLabel (calculate_class_survival_rate titanic_df) c
            = Inl (KeyError (IntLabel c)))"
proof -
  have keys: "set (map fst (calculate_class_survival_rate titanic_df)) = Pclass ` set (rows titanic_df)"
    by (simp only: keys_class_survival_rate set_sort set_remdups set_map)
  have dist: "distinct (map fst (calculate_class_survival_rate titanic_df))"
    by (simp only: keys_class_survival_rate distinct_sort distinct_remdups)
  have absent: "map_of (calculate_class_survival_rate titanic_df) c = None"
    if "c \<notin> Pclass ` set (rows titanic_df)"
    using that keys by (metis map_of_eq_None_iff set_map)
  have raise: "series_getitem IntLabel (calculate_class_survival_rate titanic_df) c
      = Inl (KeyError (IntLabel c))"
    if "c \<notin> Pclass ` set (rows titanic_df)"
    using that keys by (intro series_getitem_absent) simp
  show ?thesis using keys dist absent raise by blast
qed

theorem calculate_class_survival_rate_keys_witness:
  "2 \<notin> Pclass ` set [row_a, row_b, row_c]
   \<and> map fst (calculate_class_survival_rate (numeric_frame [row_a, row_b, row_c])) = [1, 3]
   \<and> map_of (calculate_class_survival_rate (numeric_frame [row_a, row_b, row_c])) 2 = None
   \<and> series_getitem IntLabel (calculate_class_survival_rate (numeric_frame [row_a, row_b, row_c])) 2
       = Inl (KeyError (IntLabel 2))"
  using calculate_class_survival_rate_keys [of "numeric_frame [row_a, row_b, row_c]" 2]
  by (simp add: keys_class_survival_rate numeric_frame_def row_a_def row_b_def row_c_def)

section \<open>Unique tickets\<close>

text \<open>
  C10. \<open>count_unique_tickets\<close> is the number of distinct present \<^verbatim>\<open>Ticket\<close> values:
  a row without a ticket adds nothing to the count, and the count is a number, not an
  error.
\<close>

theorem count_unique_tickets_distinct_present:
  "count_unique_tickets titanic_df = card {x. \<exists>r \<in> set (rows titanic_df). Ticket r = Some x}
   \<and> count_unique_tickets
         (titanic_df\<lparr>rows := filter (\<lambda>r. Ticket r \<noteq> None) (rows titanic_df)\<rparr>)
       = count_unique_tickets titanic_df"
proof -
  have s: "set (dropna (map Ticket rs)) = {x. \<exists>r \<in> set rs. Ticket r = Some x}" for rs
    by (auto simp: set_dropna image_iff) metis
  have c: "count_unique_tickets df = card {x. \<exists>r \<in> set (rows df). Ticket r = Some x}" for df
    unfolding count_unique_tickets_def length_remdups_card_conv s ..
  have "{x. \<exists>r \<in> set (filter (\<lambda>r. Ticket r \<noteq> None) (rows titanic_df)). Ticket r = Some x}
      = {x. \<exists>r \<in> set (rows titanic_df). Ticket r = Some x}" by auto
  then show ?thesis by (simp add: c)
qed

theorem count_unique_tickets_distinct_present_witness:
  "count_unique_tickets (numeric_frame [row_a, row_c, row_b, row_a]) = 2
   \<and> card {x. \<exists>r \<in> set (rows (numeric_frame [row_a, row_c, row_b, row_a])). Ticket r = Some x} = 2
   \<and> count_unique_tickets (numeric_frame [row_a, row_b, row_a]) = 2"
  using count_unique_tickets_distinct_present [of "numeric_frame [row_a, row_c, row_b, row_a]"]
  by (simp add: count_unique_tickets_def dropna_def numeric_frame_def row_a_def row_b_def row_c_def)

section \<open>The class with the highest survival rate\<close>

text \<open>
  The scan splits the Series at the entry it returns: every entry before it has a
  smaller value, no entry after it a larger one.
\<close>

lemma argmax_scan_split:
  "\<exists>pre post. best # s = pre @ argmax_scan best s # post
     \<and> (\<forall>x \<in> set pre. snd x < snd (argmax_scan best s))
     \<and> (\<forall>x \<in> set post. snd x \<le> snd (argmax_scan best s))"
proof (induction s arbitrary: best)
  case Nil
  show ?case by (rule exI[of _ "[]"], rule exI[of _ "[]"]) simp
next
  case (Cons kv s)
  show ?case
  proof (cases "snd best < snd kv")
    case True
    let ?r = "argmax_scan kv s"
    from Cons.IH[of kv] obtain pre post where
      d: "kv # s = pre @ ?r # post"
      and lt: "\<forall>x \<in> set pre. snd x < snd ?r"
      and le: "\<forall>x \<in> set post. snd x \<le> snd ?r" by blast
    have "kv \<in> set (pre @ ?r # post)" unfolding d[symmetric] by simp
    then have "snd kv \<le> snd ?r" using lt le by auto
    then have b: "snd best < snd ?r" using True by simp
    have r: "argmax_scan best (kv # s) = ?r" using True by simp
    show ?thesis unfolding r
      by (rule exI[of _ "best # pre"], rule exI[of _ post]) (use d lt le b in simp)
  next
    case False
    let ?r = "argmax_scan best s"
    from Cons.IH[of best] obtain pre post where
      d: "best # s = pre @ ?r # post"
      and lt: "\<forall>x \<in> set pre. snd x < snd ?r"
      and le: "\<forall>x \<in> set post. snd x \<le> snd ?r" by blast
    have r: "argmax_scan best (kv # s) = ?r" using False by simp
    show ?thesis
    proof (cases pre)
      case Nil
      note Nil_pre = this
      have "best # s = ?r # post" using d unfolding Nil_pre append_Nil .
      then have e: "best = ?r" and s: "s = post" by (metis list.inject)+
      have kv: "snd kv \<le> snd ?r" using False e by simp
      have "best # kv # s = [] @ ?r # (kv # s)" using e by simp
      then show ?thesis unfolding r
        by (intro exI[of _ "[]"] exI[of _ "kv # s"]) (use kv le s in simp)
    next
      case (Cons b pre')
      note Cons_pre = this
      have "best # s = b # (pre' @ ?r # post)" using d unfolding Cons_pre append_Cons .
      then have b: "b = best" and s: "s = pre' @ ?r # post" by (metis list.inject)+
      have "snd best < snd ?r" using lt Cons_pre b by simp
      then have kv: "snd kv < snd ?r" using False by simp
      have "best # kv # s = (best # kv # pre') @ ?r # post" using s by simp
      then show ?thesis unfolding r
        by (intro exI[of _ "best # kv # pre'"] exI[of _ post]) (use kv lt le Cons_pre b in simp)
    qed
  qed
qed

lemma idxmax_first_max:
  assumes "s \<noteq> []"
  shows "\<exists>k v pre post. idxmax s = Inr k \<and> s = pre @ (k, v) # post
     \<and> (\<forall>x \<in> set pre. snd x < v) \<and> (\<forall>x \<in> set post. snd x \<le> v)"
proof -
  obtain kv rest where s: "s = kv # rest" using assms by (cases s) auto
  let ?r = "argmax_scan kv rest"
  obtain pre post where d: "kv # rest = pre @ ?r # post"
     and lt: "\<forall>x \<in> set pre. snd x < snd ?r"
     and le: "\<forall>x \<in> set post. snd x \<le> snd ?r"
    using argmax_scan_split[of kv rest] by blast
  have i: "idxmax s = Inr (fst ?r)" by (simp add: s idxmax_def)
  have "s = pre @ (fst ?r, snd ?r) # post" using d s by simp
  then show ?thesis using i lt le by blast
qed

lemma idxmax_nonempty: "s \<noteq> [] \<Longrightarrow> \<exists>k. idxmax s = Inr k"
  by (cases s) (simp_all add: idxmax_def)

lemma sorted_keys_after:
  assumes "sorted (map fst s)" "s = pre @ (k, v) # post" "(k', v') \<in> set post"
  shows "k \<le> k'"
proof -
  have "sorted (map fst pre @ k # map fst post)" using assms(1) unfolding assms(2) by simp
  then have "\<forall>y \<in> set (map fst post). k \<le> y" by (simp add: sorted_append)
  moreover have "k' \<in> set (map fst post)" using assms(3) by force
  ultimately show ?thesis by blast
qed

text \<open>
  C5. When the per-class Series is not empty, \<open>idxmax\<close> returns a class of the Series
  whose rate is the largest of all rates; among the classes with that rate it is the
  first in the order of the Series, which is ascending class order.
\<close>

theorem highest_survival_class_first_maximum:
  assumes "calculate_class_survival_rate titanic_df \<noteq> []"
  shows "\<exists>k v. idxmax (calculate_class_survival_rate titanic_df) = Inr k
      \<and> (k, v) \<in> set (calculate_class_survival_rate titanic_df)
      \<and> (\<forall>(k', v') \<in> set (calculate_class_survival_rate titanic_df). v' \<le> v)
      \<and> (\<forall>(k', v') \<in> set (calculate_class_survival_rate titanic_df). v' = v \<longrightarrow> k \<le> k')
      \<and> sorted (map fst (calculate_class_survival_rate titanic_df))"
proof -
  let ?s = "calculate_class_survival_rate titanic_df"
  obtain k v pre post where i: "idxmax ?s = Inr k" and d: "?s = pre @ (k, v) # post"
    and lt: "\<forall>x \<in> set pre. snd x < v" and le: "\<forall>x \<in> set post. snd x \<le> v"
    using idxmax_first_max[OF assms] by blast
  have srt: "sorted (map fst ?s)" by (simp only: keys_class_survival_rate sorted_sort)
  have mem: "(k, v) \<in> set ?s" by (subst d) simp
  have "set ?s = set pre \<union> {(k, v)} \<union> set post" by (subst d) auto
  then have cases: "x \<in> set pre \<or> x = (k, v) \<or> x \<in> set post" if "x \<in> set ?s" for x
    using that by auto
  have mx: "v' \<le> v" if "(k', v') \<in> set ?s" for k' v'
    using cases[OF that] lt le by auto
  have first: "k \<le> k'" if "(k', v') \<in> set ?s" "v' = v" for k' v'
  proof -
    from cases[OF that(1)]
    consider "(k', v') \<in> set pre" | "(k', v') = (k, v)" | "(k', v') \<in> set post"
      by blast
    then show ?thesis
    proof cases
      case 1 then show ?thesis using lt that(2) by auto
    next
      case 2 then show ?thesis by simp
    next
      case 3 then show ?thesis using sorted_keys_after[OF srt d] by blast
    qed
  qed
  have "idxmax ?s = Inr k \<and> (k, v) \<in> set ?s \<and> (\<forall>(k', v') \<in> set ?s. v' \<le> v)
      \<and> (\<forall>(k', v') \<in> set ?s. v' = v \<longrightarrow> k \<le> k') \<and> sorted (map fst ?s)"
    using i mem mx first srt by blast
  then show ?thesis by blast
qed

lemma class_survival_rate_tie:
  "calculate_class_survival_rate (numeric_frame [row_c, row_a]) = [(1, 100), (3, 100)]"
  by (simp add: calculate_class_survival_rate_def group_keys_def group_rows_def mean_int_def
      dropna_def numeric_frame_def row_a_def row_c_def)

theorem highest_survival_class_first_maximum_witness:
  "calculate_class_survival_rate (numeric_frame [row_c, row_a]) = [(1, 100), (3, 100)]
   \<and> idxmax (calculate_class_survival_rate (numeric_frame [row_c, row_a])) = Inr 1"
proof -
  have ne: "calculate_class_survival_rate (numeric_frame [row_c, row_a]) \<noteq> []"
    by (simp add: class_survival_rate_tie)
  obtain k v where "idxmax (calculate_class_survival_rate (numeric_frame [row_c, row_a])) = Inr k"
    and "(k, v) \<in> set (calculate_class_survival_rate (numeric_frame [row_c, row_a]))"
    and "\<forall>(k', v') \<in> set (calculate_class_survival_rate (numeric_frame [row_c, row_a])). v' = v \<longrightarrow> k \<le> k'"
    using highest_survival_class_first_maximum [OF ne] by blast
  then have "idxmax (calculate_class_survival_rate (numeric_frame [row_c, row_a])) = Inr 1"
    by (auto simp: class_survival_rate_tie)
  then show ?thesis by (simp add: class_survival_rate_tie)
qed

section \<open>Gender proportion\<close>

lemma sum_list_insort_key:
  "sum_list (map g (insort_key f x xs)) = g x + sum_list (map g xs)"
  for g :: "'a \<Rightarrow> rat"
  by (induction xs) simp_all

lemma sum_list_sort_key:
  "sum_list (map g (sort_key f xs)) = sum_list (map g xs)"
  for g :: "'a \<Rightarrow> rat"
  by (induction xs) (simp_all add: sum_list_insort_key)

lemma set_unique: "set (unique xs) = set xs"
  by (simp add: unique_def)

lemma distinct_unique: "distinct (unique xs)"
  by (simp add: unique_def)

lemma sum_count_unique: "sum_list (map (count_list xs) (unique xs)) = length xs"
proof -
  have "sum_list (map (count_list xs) (unique xs)) = sum (count_list xs) (set (unique xs))"
    by (rule sum_list_distinct_conv_sum_set) (rule distinct_unique)
  also have "\<dots> = length xs"
    by (simp add: set_unique sum_count_set)
  finally show ?thesis .
qed

lemma keys_value_counts: "set (map fst (value_counts col)) = set (dropna col)"
  by (simp add: value_counts_def Let_def set_unique image_image)

lemma distinct_keys_value_counts: "distinct (map fst (value_counts col))"
proof -
  have "distinct (map fst (map (\<lambda>k. (k, count_list (dropna col) k)) (unique (dropna col))))"
    by (simp add: comp_def distinct_unique)
  then have "distinct (map (\<lambda>k. (k, count_list (dropna col) k)) (unique (dropna col)))"
     and "inj_on fst (set (map (\<lambda>k. (k, count_list (dropna col) k)) (unique (dropna col))))"
    by (simp_all only: distinct_map)
  then show ?thesis
    by (simp only: value_counts_def Let_def distinct_map distinct_sort set_sort)
qed

lemma sum_list_share:
  "sum_list (map (\<lambda>k. rat_of_nat (f k) / n * 100) ks)
     = rat_of_nat (sum_list (map f ks)) / n * 100"
  by (induction ks) (simp_all add: add_divide_distrib distrib_right)

lemma sum_value_counts_normalize:
  assumes "dropna col \<noteq> []"
  shows "sum_list (map (\<lambda>(k, p). p * 100) (value_counts_normalize col)) = 100"
proof -
  let ?vals = "dropna col"
  let ?n = "rat_of_nat (length ?vals)"
  have n: "?n \<noteq> 0" using assms by simp
  have "sum_list (map (\<lambda>(k, p). p * 100) (value_counts_normalize col))
      = sum_list (map (\<lambda>(k, c). rat_of_nat c / ?n * 100) (value_counts col))"
    by (simp add: value_counts_normalize_def comp_def case_prod_unfold)
  also have "\<dots> = sum_list (map (\<lambda>k. rat_of_nat (count_list ?vals k) / ?n * 100) (unique ?vals))"
    by (simp add: value_counts_def Let_def sum_list_sort_key comp_def)
  also have "\<dots> = rat_of_nat (sum_list (map (count_list ?vals) (unique ?vals))) / ?n * 100"
    by (rule sum_list_share)
  also have "\<dots> = 100" using n by (simp add: sum_count_unique)
  finally show ?thesis .
qed

lemma keys_gender_proportion_value_counts:
  "map fst (calculate_gender_proportion df) = map fst (value_counts (map Sex (rows df)))"
  by (simp add: calculate_gender_proportion_def value_counts_normalize_def comp_def
      case_prod_unfold)

text \<open>
  C8. On a non-empty table without a missing \<^verbatim>\<open>Sex\<close> cell the percentages returned
  by \<open>calculate_gender_proportion\<close> add up to 100 (in exact arithmetic), and the
  Series has one entry for each \<^verbatim>\<open>Sex\<close> value of the table.
\<close>

theorem calculate_gender_proportion_sums_to_100:
  assumes "rows titanic_df \<noteq> []" and "\<forall>r \<in> set (rows titanic_df). Sex r \<noteq> None"
  shows "sum_list (map snd (calculate_gender_proportion titanic_df)) = 100
     \<and> set (map fst (calculate_gender_proportion titanic_df))
         = {s. \<exists>r \<in> set (rows titanic_df). Sex r = Some s}
     \<and> distinct (map fst (calculate_gender_proportion titanic_df))"
proof -
  obtain r where "r \<in> set (rows titanic_df)" using assms(1) by (cases "rows titanic_df") auto
  then obtain s where "Sex r = Some s" "r \<in> set (rows titanic_df)" using assms(2) by auto
  then have "s \<in> set (dropna (map Sex (rows titanic_df)))" by (force simp: set_dropna)
  then have ne: "dropna (map Sex (rows titanic_df)) \<noteq> []" by auto
  have "map snd (calculate_gender_proportion titanic_df)
      = map (\<lambda>(k, p). p * 100) (value_counts_normalize (map Sex (rows titanic_df)))"
    by (simp add: calculate_gender_proportion_def comp_def case_prod_unfold)
  then have 1: "sum_list (map snd (calculate_gender_proportion titanic_df)) = 100"
    using sum_value_counts_normalize[OF ne] by simp
  have 2: "set (map fst (calculate_gender_proportion titanic_df))
      = {s. \<exists>r \<in> set (rows titanic_df). Sex r = Some s}"
    unfolding keys_gender_proportion_value_counts keys_value_counts
    by (auto simp: set_dropna image_iff) metis
  have 3: "distinct (map fst (calculate_gender_proportion titanic_df))"
    unfolding keys_gender_proportion_value_counts by (rule distinct_keys_value_counts)
  show ?thesis using 1 2 3 by blast
qed

lemma gender_proportion_example:
  "calculate_gender_proportion (numeric_frame [row_a, row_b, row_c]) = [(''male'', 200 / 3), (''female'', 100 / 3)]"
  by (simp add: calculate_gender_proportion_def value_counts_normalize_def value_counts_def
      unique_def dropna_def numeric_frame_def row_a_def row_b_def row_c_def)

theorem calculate_gender_proportion_sums_to_100_witness:
  "[row_a, row_b, row_c] \<noteq> []
   \<and> list_all (\<lambda>r. Sex r \<noteq> None) [row_a, row_b, row_c]
   \<and> calculate_gender_proportion (numeric_frame [row_a, row_b, row_c]) = [(''male'', 200 / 3), (''female'', 100 / 3)]
   \<and> sum_list (map snd (calculate_gender_proportion (numeric_frame [row_a, row_b, row_c]))) = 100"
proof -
  have "\<forall>r \<in> set [row_a, row_b, row_c]. Sex r \<noteq> None"
    by (simp add: numeric_frame_def row_a_def row_b_def row_c_def)
  then show ?thesis
    using calculate_gender_proportion_sums_to_100 [of "numeric_frame [row_a, row_b, row_c]"]
    by (simp add: gender_proportion_example)
qed

section \<open>Lookups of absent categories\<close>

lemma set_dropna_map: "set (dropna (map f df)) = {x. Some x \<in> f ` set df}"
  by (simp add: set_dropna)

lemma keys_gender_proportion:
  "set (map fst (calculate_gender_proportion df)) = {x. Some x \<in> Sex ` set (rows df)}"
  by (simp only: keys_gender_proportion_value_counts keys_value_counts set_dropna_map)

lemma keys_passengers_by_port:
  "set (map fst (count_passengers_by_port df)) = {x. Some x \<in> Embarked ` set (rows df)}"
  by (simp only: count_passengers_by_port_def keys_value_counts set_dropna_map)

lemma keys_gender_survival_rate:
  "set (map fst (calculate_gender_survival_rate df)) = {x. Some x \<in> Sex ` set (rows df)}"
proof -
  have "map fst (calculate_gender_survival_rate df) = group_keys Sex (rows df)"
    by (simp add: calculate_gender_survival_rate_def comp_def)
  then show ?thesis by (simp only: set_group_keys) (auto simp: image_iff, metis)
qed

lemma keys_class_survival_rate_set:
  "set (map fst (calculate_class_survival_rate df)) = Pclass ` set (rows df)"
  by (simp only: keys_class_survival_rate set_sort set_remdups set_map)

lemma keys_average_fare_by_class:
  "set (map fst (calculate_average_fare_by_class df)) = Pclass ` set (rows df)"
proof -
  have "map fst (calculate_average_fare_by_class df) = sort (remdups (map Pclass (rows df)))"
    by (simp add: calculate_average_fare_by_class_def group_keys_def dropna_map_Some comp_def)
  then show ?thesis by (simp only: set_sort set_remdups set_map)
qed

lemma series_getitem_cases:
  "series_getitem lab s k =
     (if k \<in> set (map fst s) then Inr (the (map_of s k)) else Inl (KeyError (lab k)))"
proof (cases "k \<in> set (map fst s)")
  case True
  then have "map_of s k \<noteq> None" by (simp add: map_of_eq_None_iff)
  then show ?thesis using True by (auto simp: series_getitem_def)
next
  case False
  then show ?thesis using series_getitem_absent[of k s lab] by simp
qed

lemma and_then_step_Inr: "and_then (step (Inr x)) f = f x"
  by (simp add: and_then_def step_def split: prod.splits)

lemma and_then_step_Inl: "and_then (step (Inl e)) f = ([], Inl e)"
  by (simp add: and_then_def step_def)

lemma and_then_step_if:
  "and_then (step (if b then Inr x else Inl e)) f = (if b then f x else ([], Inl e))"
  by (simp add: and_then_step_Inr and_then_step_Inl)

lemma and_then_emit: "and_then (emit e) f = (e # fst (f ()), snd (f ()))"
  by (simp add: and_then_def emit_def split: prod.splits)

lemma emit_parts: "fst (emit e) = [e]" "snd (emit e) = Inr ()"
  by (simp_all add: emit_def)

lemma class_survival_rate_nonempty: "rows df \<noteq> [] \<Longrightarrow> calculate_class_survival_rate df \<noteq> []"
proof
  assume "rows df \<noteq> []" and e: "calculate_class_survival_rate df = []"
  then have "Pclass ` set (rows df) \<noteq> {}" by simp
  moreover have "set (map fst (calculate_class_survival_rate df)) = {}" using e by simp
  ultimately show False by (simp only: keys_class_survival_rate_set)
qed

text \<open>
  On a table with rows the sequence ends with the KeyError of the first referenced
  category that no row has, and reaches the figure only when there is none.
\<close>

lemma statistics_sequence_outcome:
  assumes "rows df \<noteq> []"
  shows "snd (statistics_sequence df) =
           (case find (\<lambda>(k, present). \<not> present) (referenced_categories df) of
              None \<Rightarrow> Inr ()
            | Some (k, _) \<Rightarrow> Inl (KeyError k))
       \<and> (Plot \<in> set (fst (statistics_sequence df))
            \<longleftrightarrow> find (\<lambda>(k, present). \<not> present) (referenced_categories df) = None)"
proof -
  obtain r where r: "calculate_survival_rate df = Inr r"
    using calculate_survival_rate_rows[OF assms] by blast
  obtain h where h: "idxmax (calculate_class_survival_rate df) = Inr h"
    using idxmax_nonempty[OF class_survival_rate_nonempty[OF assms]] by blast
  note sim = statistics_sequence_def referenced_categories_def visualize_distributions_def
    series_getitem_cases and_then_step_Inr and_then_step_if and_then_step_Inl and_then_emit
    emit_parts keys_gender_proportion keys_passengers_by_port keys_gender_survival_rate
    keys_class_survival_rate_set keys_average_fare_by_class r h
  consider (male) "Some ''male'' \<notin> Sex ` set (rows df)"
    | (female) "Some ''male'' \<in> Sex ` set (rows df)" "Some ''female'' \<notin> Sex ` set (rows df)"
    | (sex) "Some ''male'' \<in> Sex ` set (rows df)" "Some ''female'' \<in> Sex ` set (rows df)"
    by blast
  then show ?thesis
  proof cases
    case male
    then show ?thesis by (simp add: sim del: set_map)
  next
    case female
    then show ?thesis by (simp add: sim del: set_map)
  next
    case sex
    consider (c1) "1 \<notin> Pclass ` set (rows df)"
      | (c2) "1 \<in> Pclass ` set (rows df)" "2 \<notin> Pclass ` set (rows df)"
      | (c3) "1 \<in> Pclass ` set (rows df)" "2 \<in> Pclass ` set (rows df)" "3 \<notin> Pclass ` set (rows df)"
      | (cls) "1 \<in> Pclass ` set (rows df)" "2 \<in> Pclass ` set (rows df)" "3 \<in> Pclass ` set (rows df)"
      by blast
    then show ?thesis
    proof cases
      case c1
      then show ?thesis using sex by (simp add: sim del: set_map)
    next
      case c2
      then show ?thesis using sex by (simp add: sim del: set_map)
    next
      case c3
      then show ?thesis using sex by (simp add: sim del: set_map)
    next
      case cls
      consider (pc) "Some ''C'' \<notin> Embarked ` set (rows df)"
        | (pq) "Some ''C'' \<in> Embarked ` set (rows df)" "Some ''Q'' \<notin> Embarked ` set (rows df)"
        | (ps) "Some ''C'' \<in> Embarked ` set (rows df)" "Some ''Q'' \<in> Embarked ` set (rows df)"
               "Some ''S'' \<notin> Embarked ` set (rows df)"
        | (all) "Some ''C'' \<in> Embarked ` set (rows df)" "Some ''Q'' \<in> Embarked ` set (rows df)"
               "Some ''S'' \<in> Embarked ` set (rows df)"
        by blast
      then show ?thesis
      proof cases
        case pc
        then show ?thesis using sex cls by (simp add: sim del: set_map)
      next
        case pq
        then show ?thesis using sex cls by (simp add: sim del: set_map)
      next
        case ps
        then show ?thesis using sex cls by (simp add: sim del: set_map)
      next
        case all
        then show ?thesis using sex cls by (simp add: sim del: set_map)
      qed
    qed
  qed
qed

text \<open>
  C6. Looking up a category that no row has, in the Series of the statistic grouped by
  it, raises KeyError with that category: a \<^verbatim>\<open>Sex\<close> value in the gender proportion and
  the survival rate by gender, a \<^verbatim>\<open>Pclass\<close> value in the survival rate and the average
  fare by class, an \<^verbatim>\<open>Embarked\<close> port in the passenger counts. Nothing catches it: on a
  table with rows, the top-level sequence ends with the KeyError of the first category it
  looks up that no row has, and does not reach the figure; so whenever some category it
  looks up is in no row, it ends with the KeyError of such a category.
\<close>

theorem lookup_of_absent_category_raises:
  "((\<forall>r \<in> set (rows titanic_df). Sex r \<noteq> Some s) \<longrightarrow>
      series_getitem StrLabel (calculate_gender_proportion titanic_df) s
        = Inl (KeyError (StrLabel s))
      \<and> series_getitem StrLabel (calculate_gender_survival_rate titanic_df) s
        = Inl (KeyError (StrLabel s)))
   \<and> ((\<forall>r \<in> set (rows titanic_df). Pclass r \<noteq> c) \<longrightarrow>
      series_getitem IntLabel (calculate_class_survival_rate titanic_df) c
        = Inl (KeyError (IntLabel c))
      \<and> series_getitem IntLabel (calculate_average_fare_by_class titanic_df) c
        = Inl (KeyError (IntLabel c)))
   \<and> ((\<forall>r \<in> set (rows titanic_df). Embarked r \<noteq> Some p) \<longrightarrow>
      series_getitem StrLabel (count_passengers_by_port titanic_df) p
        = Inl (KeyError (StrLabel p)))
   \<and> (rows titanic_df \<noteq> [] \<longrightarrow>
      find (\<lambda>(k, present). \<not> present) (referenced_categories titanic_df) = Some (k, b) \<longrightarrow>
      snd (statistics_sequence titanic_df) = Inl (KeyError k)
      \<and> Plot \<notin> set (fst (statistics_sequence titanic_df)))
   \<and> (rows titanic_df \<noteq> [] \<longrightarrow> (l, False) \<in> set (referenced_categories titanic_df) \<longrightarrow>
      (\<exists>k'. snd (statistics_sequence titanic_df) = Inl (KeyError k')
         \<and> (k', False) \<in> set (referenced_categories titanic_df)))"
proof (intro conjI impI)
  assume a: "\<forall>r \<in> set (rows titanic_df). Sex r \<noteq> Some s"
  then have "Some s \<notin> Sex ` set (rows titanic_df)" by (auto simp: image_iff)
  then show "series_getitem StrLabel (calculate_gender_proportion titanic_df) s
        = Inl (KeyError (StrLabel s))"
    and "series_getitem StrLabel (calculate_gender_survival_rate titanic_df) s
        = Inl (KeyError (StrLabel s))"
    by (simp_all add: series_getitem_cases keys_gender_proportion keys_gender_survival_rate
        del: set_map)
next
  assume a: "\<forall>r \<in> set (rows titanic_df). Pclass r \<noteq> c"
  then have "c \<notin> Pclass ` set (rows titanic_df)" by (auto simp: image_iff)
  then show "series_getitem IntLabel (calculate_class_survival_rate titanic_df) c
        = Inl (KeyError (IntLabel c))"
    and "series_getitem IntLabel (calculate_average_fare_by_class titanic_df) c
        = Inl (KeyError (IntLabel c))"
    by (simp_all add: series_getitem_cases keys_class_survival_rate_set
        keys_average_fare_by_class del: set_map)
next
  assume a: "\<forall>r \<in> set (rows titanic_df). Embarked r \<noteq> Some p"
  then have "Some p \<notin> Embarked ` set (rows titanic_df)" by (auto simp: image_iff)
  then show "series_getitem StrLabel (count_passengers_by_port titanic_df) p
        = Inl (KeyError (StrLabel p))"
    by (simp add: series_getitem_cases keys_passengers_by_port del: set_map)
next
  assume ne: "rows titanic_df \<noteq> []"
    and f: "find (\<lambda>(k, present). \<not> present) (referenced_categories titanic_df) = Some (k, b)"
  show "snd (statistics_sequence titanic_df) = Inl (KeyError k)"
    using statistics_sequence_outcome[OF ne] f by simp
  show "Plot \<notin> set (fst (statistics_sequence titanic_df))"
    using statistics_sequence_outcome[OF ne] f by simp
next
  assume ne: "rows titanic_df \<noteq> []"
    and m: "(l, False) \<in> set (referenced_categories titanic_df)"
  let ?absent = "\<lambda>(k, present). \<not> present"
  have "\<exists>x. x \<in> set (referenced_categories titanic_df) \<and> ?absent x"
    by (rule exI[of _ "(l, False)"]) (use m in simp)
  then have "find ?absent (referenced_categories titanic_df) \<noteq> None"
    unfolding find_None_iff by blast
  then obtain k' b' where f: "find ?absent (referenced_categories titanic_df) = Some (k', b')"
    by (cases "find ?absent (referenced_categories titanic_df)") auto
  then have "(k', b') \<in> set (referenced_categories titanic_df)" and "?absent (k', b')"
    by (auto simp: find_Some_iff in_set_conv_nth)
  then have "(k', False) \<in> set (referenced_categories titanic_df)" by simp
  moreover have "snd (statistics_sequence titanic_df) = Inl (KeyError k')"
    using statistics_sequence_outcome[OF ne] f by simp
  ultimately show "\<exists>k'. snd (statistics_sequence titanic_df) = Inl (KeyError k')
         \<and> (k', False) \<in> set (referenced_categories titanic_df)" by blast
qed

lemma referenced_categories_example:
  "find (\<lambda>(k, present). \<not> present) (referenced_categories (numeric_frame [row_a, row_b, row_c]))
     = Some (IntLabel 2, False)"
  by (simp add: referenced_categories_def numeric_frame_def row_a_def row_b_def row_c_def)

theorem lookup_of_absent_category_raises_witness:
  "[row_a, row_b, row_c] \<noteq> []
   \<and> list_all (\<lambda>r. Pclass r \<noteq> 2) [row_a, row_b, row_c]
   \<and> series_getitem IntLabel (calculate_class_survival_rate (numeric_frame [row_a, row_b, row_c])) 2
       = Inl (KeyError (IntLabel 2))
   \<and> list_all (\<lambda>r. Sex r \<noteq> Some ''child'') [row_a, row_b, row_c]
   \<and> series_getitem StrLabel (calculate_gender_proportion (numeric_frame [row_a, row_b, row_c])) ''child''
       = Inl (KeyError (StrLabel ''child''))
   \<and> list_all (\<lambda>r. Embarked r \<noteq> Some ''Q'') [row_a, row_b, row_c]
   \<and> series_getitem StrLabel (count_passengers_by_port (numeric_frame [row_a, row_b, row_c])) ''Q''
       = Inl (KeyError (StrLabel ''Q''))
   \<and> snd (statistics_sequence (numeric_frame [row_a, row_b, row_c])) = Inl (KeyError (IntLabel 2))
   \<and> Plot \<notin> set (fst (statistics_sequence (numeric_frame [row_a, row_b, row_c])))"
  using lookup_of_absent_category_raises
    [of "numeric_frame [row_a, row_b, row_c]" "''child''" 2 "''Q''" "IntLabel 2" False "StrLabel ''Q''"]
  by (simp add: referenced_categories_example) (simp add: numeric_frame_def row_a_def row_b_def row_c_def)

section \<open>The loader\<close>

text \<open>\<open>str_in\<close> is the substring test.\<close>

lemma str_in_iff: "str_in needle hay \<longleftrightarrow> (\<exists>pre post. hay = pre @ needle @ post)"
proof (induction hay)
  case Nil
  show ?case by auto
next
  case (Cons c cs)
  have "take (length needle) (c # cs) = needle \<longleftrightarrow> (\<exists>post. c # cs = needle @ post)"
    by (metis append_eq_conv_conj append_take_drop_id)
  moreover have "(\<exists>pre post. c # cs = pre @ needle @ post)
      \<longleftrightarrow> (\<exists>post. c # cs = needle @ post) \<or> (\<exists>pre post. cs = pre @ needle @ post)"
  proof
    assume "\<exists>pre post. c # cs = pre @ needle @ post"
    then obtain pre post where d: "c # cs = pre @ needle @ post" by blast
    show "(\<exists>post. c # cs = needle @ post) \<or> (\<exists>pre post. cs = pre @ needle @ post)"
    proof (cases pre)
      case Nil
      then show ?thesis using d by auto
    next
      case (Cons p pre')
      then have "cs = pre' @ needle @ post" using d by simp
      then show ?thesis by blast
    qed
  next
    assume "(\<exists>post. c # cs = needle @ post) \<or> (\<exists>pre post. cs = pre @ needle @ post)"
    then show "\<exists>pre post. c # cs = pre @ needle @ post"
    proof
      assume "\<exists>post. c # cs = needle @ post"
      then show ?thesis by (metis append_Nil)
    next
      assume "\<exists>pre post. cs = pre @ needle @ post"
      then show ?thesis by (metis append_Cons)
    qed
  qed
  ultimately show ?case using Cons.IH by simp
qed

lemma df_drop_unnamed:
  "df_drop (filter (\<lambda>col. str_in ''Unnamed'' col) (map fst df)) df
     = filter (\<lambda>c. \<not> str_in ''Unnamed'' (fst c)) df"
  unfolding df_drop_def by (rule filter_cong) (auto simp: image_iff)

text \<open>
  C7. When \<^verbatim>\<open>read_csv\<close> yields a frame, \<open>load_dataset\<close> prints nothing and returns
  that frame without the columns whose label contains \<^verbatim>\<open>Unnamed\<close>: the remaining
  labels are the other labels in their order, every other column is in the result with
  the cells it had, in their row order, and the result has no column besides.
\<close>

theorem load_dataset_drops_only_unnamed:
  assumes "read_csv parse fs file_path = Inr titanic_df"
  shows "\<exists>clean. load_dataset parse fs file_path = ([], Some clean)
     \<and> clean = filter (\<lambda>c. \<not> str_in ''Unnamed'' (fst c)) titanic_df
     \<and> map fst clean = filter (\<lambda>name. \<not> str_in ''Unnamed'' name) (map fst titanic_df)
     \<and> (\<forall>c \<in> set titanic_df. \<not> str_in ''Unnamed'' (fst c) \<longrightarrow> c \<in> set clean)
     \<and> (\<forall>c \<in> set clean. c \<in> set titanic_df \<and> \<not> str_in ''Unnamed'' (fst c))"
proof -
  let ?clean = "filter (\<lambda>c. \<not> str_in ''Unnamed'' (fst c)) titanic_df"
  have "load_dataset parse fs file_path = ([], Some ?clean)"
    using assms by (simp add: load_dataset_def df_drop_unnamed)
  moreover have "map fst ?clean = filter (\<lambda>name. \<not> str_in ''Unnamed'' name) (map fst titanic_df)"
    by (simp add: filter_map comp_def)
  ultimately show ?thesis by simp
qed

theorem load_dataset_drops_only_unnamed_witness:
  "read_csv (\<lambda>content. Inr raw_frame) [''t.csv'' \<mapsto> ''text''] ''t.csv'' = Inr raw_frame
   \<and> load_dataset (\<lambda>content. Inr raw_frame) [''t.csv'' \<mapsto> ''text''] ''t.csv''
       = ([], Some [(''Survived'', [''1'', ''0'']), (''Name'', [''Ann'', ''Bob''])])"
proof -
  have r: "read_csv (\<lambda>content. Inr raw_frame) [''t.csv'' \<mapsto> ''text''] ''t.csv'' = Inr raw_frame"
    by (simp add: read_csv_def)
  have "filter (\<lambda>c. \<not> str_in ''Unnamed'' (fst c)) raw_frame
      = [(''Survived'', [''1'', ''0'']), (''Name'', [''Ann'', ''Bob''])]"
    by (simp add: raw_frame_def)
  then show ?thesis
    using r load_dataset_drops_only_unnamed [OF r] by simp
qed

text \<open>
  C2. When there is no file at the path, \<open>load_dataset\<close> prints the not-found message
  with the path and returns no frame; its result has no exception in it. When there is
  no file at the path of the entry point, the run prints that message and nothing else
  and ends normally: no statistic is reported and no figure requested.
\<close>

theorem load_dataset_file_not_found:
  "(fs file_path = None \<longrightarrow>
      load_dataset parse fs file_path
        = ([Print (''Error: The file at '' @ file_path @ '' was not found.'')], None))
   \<and> (fs ''./data/Titanic.csv'' = None \<longrightarrow>
      main parse typed fs
        = ([Print ''Error: The file at ./data/Titanic.csv was not found.''], Inr ()))"
  by (simp add: load_dataset_def read_csv_def main_def)

theorem load_dataset_file_not_found_witness:
  "(Map.empty :: string \<rightharpoonup> string) ''missing.csv'' = None
   \<and> load_dataset (\<lambda>content. Inr raw_frame) Map.empty ''missing.csv''
       = ([Print ''Error: The file at missing.csv was not found.''], None)
   \<and> main (\<lambda>content. Inr raw_frame) (\<lambda>df. [row_a, row_b]) Map.empty
       = ([Print ''Error: The file at ./data/Titanic.csv was not found.''], Inr ())"
  using load_dataset_file_not_found
    [of Map.empty "''missing.csv''" "\<lambda>content. Inr raw_frame" "\<lambda>df. [row_a, row_b]"]
  by simp

end
